theory Spec2Isabelle
  imports Main
begin

section \<open>Data model of \<^verbatim>\<open>main.go\<close>\<close>

text \<open>
  Go strings are byte strings, and so is \<^typ>\<open>string\<close>: a character outside ASCII is
  the list of its UTF-8 bytes.
\<close>

record Address =
  Cep :: string
  Logradouro :: string
  Bairro :: string
  Localidade :: string
  Uf :: string

text \<open>
  The two provider structs share field names with each other and with \<open>Address\<close>;
  the fields of \<open>BrasilAPIResponse\<close> carry the prefix \<open>br_\<close> and those of
  \<open>ViaCEPResponse\<close> the prefix \<open>vc_\<close>.
\<close>

record BrasilAPIResponse =
  br_Cep :: string
  br_State :: string
  br_City :: string
  br_Neighborhood :: string
  br_Street :: string
  br_Service :: string

record ViaCEPResponse =
  vc_Cep :: string
  vc_Logradouro :: string
  vc_Complemento :: string
  vc_Bairro :: string
  vc_Localidade :: string
  vc_Uf :: string
  vc_Ibge :: string
  vc_Gia :: string
  vc_Ddd :: string
  vc_Siafi :: string

text \<open>The \<^verbatim>\<open>json:"..."\<close> tags of the two structs, in declaration order.\<close>

definition BrasilAPIResponse_tags :: "string list" where
  "BrasilAPIResponse_tags =
     [''cep'', ''state'', ''city'', ''neighborhood'', ''street'', ''service'']"

definition ViaCEPResponse_tags :: "string list" where
  "ViaCEPResponse_tags =
     [''cep'', ''logradouro'', ''complemento'', ''bairro'', ''localidade'', ''uf'',
      ''ibge'', ''gia'', ''ddd'', ''siafi'']"

text \<open>
  A Go \<^verbatim>\<open>error\<close> value. \<open>TransportError\<close> is an error of the connection (what
  \<^verbatim>\<open>client.Do\<close> returns, or a body that cannot be read to its end),
  \<open>SyntaxError\<close> what the JSON decoder returns when the body does not start with a
  well-formed JSON value (an empty body included), and \<open>UnmarshalTypeError v f\<close> what
  it returns when a JSON value of kind \<open>v\<close> meets the string field tagged \<open>f\<close> (or
  the struct itself, \<open>f = []\<close>).
\<close>

datatype error =
    TransportError string
  | SyntaxError string
  | UnmarshalTypeError string string

section \<open>The collaborators from the Go standard library\<close>

subsection \<open>\<^verbatim>\<open>encoding/json\<close>: decoding into a struct of string fields\<close>

datatype json =
    JNull
  | JBool bool
  | JNumber string
  | JString string
  | JArray "json list"
  | JObject "(string \<times> json) list"

text \<open>The name the decoder gives a JSON value's kind in an \<open>UnmarshalTypeError\<close>.\<close>

fun kind :: "json \<Rightarrow> string" where
  "kind JNull = ''null''"
| "kind (JBool _) = ''bool''"
| "kind (JNumber _) = ''number''"
| "kind (JString _) = ''string''"
| "kind (JArray _) = ''array''"
| "kind (JObject _) = ''object''"

definition upperASCII :: "char \<Rightarrow> char" where
  "upperASCII c =
     (let n = (of_char c :: nat) in if 97 \<le> n \<and> n \<le> 122 then char_of (n - 32) else c)"

text \<open>
  The decoder matches an object key against the field names exactly, and failing that
  under case folding. Folding maps an ASCII letter to its upper case, and the only two
  characters outside ASCII whose fold is an ASCII letter, U+017F (bytes C5 BF) to \<open>S\<close> and
  U+212A (bytes E2 84 AA) to \<open>K\<close>. Every other byte is kept here as it is: \<open>foldName\<close>
  agrees with the library on every name whose fold is ASCII, which is all a comparison
  with the ASCII tags above depends on.
\<close>

fun foldName :: "string \<Rightarrow> string" where
  "foldName [] = []"
| "foldName [c] = [upperASCII c]"
| "foldName [c1, c2] =
     (if c1 = CHR 0xC5 \<and> c2 = CHR 0xBF then ''S'' else upperASCII c1 # foldName [c2])"
| "foldName (c1 # c2 # c3 # cs) =
     (if c1 = CHR 0xE2 \<and> c2 = CHR 0x84 \<and> c3 = CHR 0xAA then CHR ''K'' # foldName cs
      else if c1 = CHR 0xC5 \<and> c2 = CHR 0xBF then CHR ''S'' # foldName (c3 # cs)
      else upperASCII c1 # foldName (c2 # c3 # cs))"

definition find_field :: "string list \<Rightarrow> string \<Rightarrow> string option" where
  "find_field tags key =
     (if key \<in> set tags then Some key
      else find (\<lambda>t. foldName t = foldName key) tags)"

text \<open>
  A struct of string fields under decoding: the value of each tag (\<open>[]\<close> is Go's zero
  value of a string) and the first error saved so far.
\<close>

type_synonym fields = "string \<Rightarrow> string"

definition zero_fields :: fields where
  "zero_fields = (\<lambda>_. [])"

fun saveError :: "error option \<Rightarrow> error \<Rightarrow> error option" where
  "saveError None e = Some e"
| "saveError (Some e0) _ = Some e0"

text \<open>
  One member of a JSON object: a key that matches no field is skipped; a string is
  stored; \<^verbatim>\<open>null\<close> leaves the field as it is; any other value saves an
  \<open>UnmarshalTypeError\<close> and decoding goes on.
\<close>

fun decode_member ::
  "string list \<Rightarrow> fields \<times> error option \<Rightarrow> string \<times> json \<Rightarrow> fields \<times> error option" where
  "decode_member tags (fs, err) (key, v) =
     (case find_field tags key of
        None \<Rightarrow> (fs, err)
      | Some f \<Rightarrow>
          (case v of
             JString s \<Rightarrow> (fs(f := s), err)
           | JNull \<Rightarrow> (fs, err)
           | _ \<Rightarrow> (fs, saveError err (UnmarshalTypeError (kind v) f))))"

fun decode_struct :: "string list \<Rightarrow> json \<Rightarrow> error + fields" where
  "decode_struct tags (JObject members) =
     (case foldl (decode_member tags) (zero_fields, None) members of
        (fs, None) \<Rightarrow> Inr fs
      | (fs, Some e) \<Rightarrow> Inl e)"
| "decode_struct tags JNull = Inr zero_fields"
| "decode_struct tags v = Inl (UnmarshalTypeError (kind v) [])"

text \<open>
  \<^verbatim>\<open>json.NewDecoder(resp.Body).Decode(&v)\<close>. The body is given as what the
  decoder's scanner makes of the byte stream: the first JSON value in it, or the error
  of a stream that does not start with one.
\<close>

definition json_Decode :: "error + json \<Rightarrow> string list \<Rightarrow> error + fields" where
  "json_Decode body tags =
     (case body of Inl e \<Rightarrow> Inl e | Inr v \<Rightarrow> decode_struct tags v)"

definition to_BrasilAPIResponse :: "fields \<Rightarrow> BrasilAPIResponse" where
  "to_BrasilAPIResponse fs =
     \<lparr>br_Cep = fs ''cep'', br_State = fs ''state'', br_City = fs ''city'',
      br_Neighborhood = fs ''neighborhood'', br_Street = fs ''street'',
      br_Service = fs ''service''\<rparr>"

definition to_ViaCEPResponse :: "fields \<Rightarrow> ViaCEPResponse" where
  "to_ViaCEPResponse fs =
     \<lparr>vc_Cep = fs ''cep'', vc_Logradouro = fs ''logradouro'',
      vc_Complemento = fs ''complemento'', vc_Bairro = fs ''bairro'',
      vc_Localidade = fs ''localidade'', vc_Uf = fs ''uf'', vc_Ibge = fs ''ibge'',
      vc_Gia = fs ''gia'', vc_Ddd = fs ''ddd'', vc_Siafi = fs ''siafi''\<rparr>"

subsection \<open>\<^verbatim>\<open>net/http\<close>: requests and responses\<close>

record Request =
  Method :: string
  URL :: string

record Response =
  StatusCode :: int
  Body :: "error + json"

definition isCTL :: "char \<Rightarrow> bool" where
  "isCTL c = ((of_char c :: nat) < 32 \<or> (of_char c :: nat) = 127)"

definition ishex :: "char \<Rightarrow> bool" where
  "ishex c =
     (let n = (of_char c :: nat)
      in (48 \<le> n \<and> n \<le> 57) \<or> (97 \<le> n \<and> n \<le> 102) \<or> (65 \<le> n \<and> n \<le> 70))"

text \<open>Every \<^verbatim>\<open>%\<close> is followed by two hexadecimal digits.\<close>

fun escapes_ok :: "string \<Rightarrow> bool" where
  "escapes_ok [] = True"
| "escapes_ok [c] = (c \<noteq> CHR ''%'')"
| "escapes_ok [c, h] = (c \<noteq> CHR ''%'' \<and> h \<noteq> CHR ''%'')"
| "escapes_ok (c # h1 # h2 # cs) =
     (if c = CHR ''%'' then ishex h1 \<and> ishex h2 \<and> escapes_ok cs
      else escapes_ok (h1 # h2 # cs))"

text \<open>
  \<^verbatim>\<open>url.Parse\<close> on a URL \<^verbatim>\<open>scheme://host/...\<close> whose scheme and host are
  well-formed literals without \<^verbatim>\<open>%\<close>, \<^verbatim>\<open>?\<close> or \<^verbatim>\<open>#\<close>, as both URLs
  of \<^verbatim>\<open>main\<close> are. The fragment, after the first \<^verbatim>\<open>#\<close>, is cut off first.
  Parsing fails on a control byte in the part before the fragment, and on a malformed
  percent-escape in the path (up to the first \<^verbatim>\<open>?\<close>) or in the fragment; the
  query is not looked at, and the fragment is not searched for control bytes.
\<close>

definition url_Parse_ok :: "string \<Rightarrow> bool" where
  "url_Parse_ok rawURL =
     (let u = takeWhile (\<lambda>c. c \<noteq> CHR ''#'') rawURL;
          frag = drop (Suc (length u)) rawURL;
          rest = takeWhile (\<lambda>c. c \<noteq> CHR ''?'') u
      in \<not> list_ex isCTL u \<and> escapes_ok rest \<and> escapes_ok frag)"

text \<open>
  \<^verbatim>\<open>http.NewRequestWithContext(ctx, "GET", url, nil)\<close>: the method is valid and
  the context is not nil, so it fails exactly when the URL does not parse, and then the
  request it returns is nil (\<open>None\<close>).
\<close>

definition http_NewRequestWithContext :: "string \<Rightarrow> string \<Rightarrow> Request option" where
  "http_NewRequestWithContext method url =
     (if url_Parse_ok url then Some \<lparr>Method = method, URL = url\<rparr> else None)"

section \<open>\<^verbatim>\<open>fetchAddress\<close>\<close>

text \<open>
  What one call of \<open>fetchAddress\<close> does, in order: the values it sends on its two
  channels, and a panic of its goroutine.
\<close>

datatype effect =
    ResultSend Address
  | ErrSend error
  | Panic

text \<open>
  The network is the parameter \<open>client_Do\<close>: for each request, the error or the response
  \<^verbatim>\<open>client.Do\<close> returns (the context's cancellation shows there as an error).
  The error of \<^verbatim>\<open>http.NewRequestWithContext\<close> is discarded by the source
  (\<^verbatim>\<open>req, _ := ...\<close>); with a nil request \<^verbatim>\<open>client.Do\<close> dereferences nil.
\<close>

definition fetchAddress ::
  "(Request \<Rightarrow> error + Response) \<Rightarrow> string \<Rightarrow> bool \<Rightarrow> effect list" where
  "fetchAddress client_Do url isBrasilAPI =
     (case http_NewRequestWithContext ''GET'' url of
        None \<Rightarrow> [Panic]
      | Some req \<Rightarrow>
          (case client_Do req of
             Inl err \<Rightarrow> [ErrSend err]
           | Inr resp \<Rightarrow>
               if isBrasilAPI then
                 (case json_Decode (Body resp) BrasilAPIResponse_tags of
                    Inl err \<Rightarrow> [ErrSend err]
                  | Inr fs \<Rightarrow>
                      (let brasilAPIResponse = to_BrasilAPIResponse fs
                       in [ResultSend
                             \<lparr>Cep = br_Cep brasilAPIResponse,
                              Logradouro = br_Street brasilAPIResponse,
                              Bairro = br_Neighborhood brasilAPIResponse,
                              Localidade = br_City brasilAPIResponse,
                              Uf = br_State brasilAPIResponse\<rparr>]))
               else
                 (case json_Decode (Body resp) ViaCEPResponse_tags of
                    Inl err \<Rightarrow> [ErrSend err]
                  | Inr fs \<Rightarrow>
                      (let viaCEPResponse = to_ViaCEPResponse fs
                       in [ResultSend
                             \<lparr>Cep = vc_Cep viaCEPResponse,
                              Logradouro = vc_Logradouro viaCEPResponse,
                              Bairro = vc_Bairro viaCEPResponse,
                              Localidade = vc_Localidade viaCEPResponse,
                              Uf = vc_Uf viaCEPResponse\<rparr>]))))"

section \<open>\<^verbatim>\<open>main\<close>: the race\<close>

subsection \<open>The key and the two URLs\<close>

text \<open>\<open>os_Args\<close> is \<^verbatim>\<open>os.Args\<close>: the program name, then the arguments.\<close>

definition main_cep :: "string list \<Rightarrow> string" where
  "main_cep os_Args = (if length os_Args > 1 then os_Args ! 1 else ''01153000'')"

definition brasilAPI :: "string \<Rightarrow> string" where
  "brasilAPI cep = ''https://brasilapi.com.br/api/cep/v1/'' @ cep"

definition viaCEP :: "string \<Rightarrow> string" where
  "viaCEP cep = ''http://viacep.com.br/ws/'' @ cep @ ''/json/''"

subsection \<open>The \<^verbatim>\<open>select\<close> statement\<close>

text \<open>
  The four unbuffered channels and the context's \<^verbatim>\<open>Done\<close> channel, as the
  \<^verbatim>\<open>select\<close> sees them at one instant: the value a blocked sender offers on each
  channel, and whether the context is done.
\<close>

record channels =
  brasilAPIResult :: "Address option"
  brasilAPIErr :: "error option"
  viaCEPResult :: "Address option"
  viaCEPErr :: "error option"
  ctx_Done :: bool

datatype outcome =
    BrasilAPI_Address Address
  | BrasilAPI_Erro error
  | ViaCEP_Address Address
  | ViaCEP_Erro error
  | Timeout

text \<open>Any case whose communication can proceed may be the one that is chosen.\<close>

inductive go_select :: "channels \<Rightarrow> outcome \<Rightarrow> bool" where
  case_brasilAPIResult:
    "brasilAPIResult ch = Some addr \<Longrightarrow> go_select ch (BrasilAPI_Address addr)"
| case_brasilAPIErr:
    "brasilAPIErr ch = Some err \<Longrightarrow> go_select ch (BrasilAPI_Erro err)"
| case_viaCEPResult:
    "viaCEPResult ch = Some addr \<Longrightarrow> go_select ch (ViaCEP_Address addr)"
| case_viaCEPErr:
    "viaCEPErr ch = Some err \<Longrightarrow> go_select ch (ViaCEP_Erro err)"
| case_ctx_Done:
    "ctx_Done ch \<Longrightarrow> go_select ch Timeout"

code_pred go_select .

text \<open>
  What each case prints: the call of \<^verbatim>\<open>fmt.Printf\<close> or \<^verbatim>\<open>fmt.Println\<close>
  with its format and arguments. The formats hold the UTF-8 bytes of the source text.
\<close>

datatype fmt_arg = S string | V error

datatype stdout_line = Printf string "fmt_arg list" | Println string

definition Endereco :: string where
  "Endereco = ''Endere'' @ [CHR 0xC3, CHR 0xA7] @ ''o''"

fun report :: "outcome \<Rightarrow> stdout_line" where
  "report (BrasilAPI_Address addr) =
     Printf (Endereco @ '' (Brasil API): %s, %s, %s - %s'' @ [CHR 0x0A])
       [S (Logradouro addr), S (Bairro addr), S (Localidade addr), S (Uf addr)]"
| "report (BrasilAPI_Erro err) =
     Printf (''Erro (Brasil API): %v'' @ [CHR 0x0A]) [V err]"
| "report (ViaCEP_Address addr) =
     Printf (Endereco @ '' (ViaCEP): %s, %s, %s - %s'' @ [CHR 0x0A])
       [S (Logradouro addr), S (Bairro addr), S (Localidade addr), S (Uf addr)]"
| "report (ViaCEP_Erro err) =
     Printf (''Erro (ViaCEP): %v'' @ [CHR 0x0A]) [V err]"
| "report Timeout =
     Println (''Timeout: Nenhuma das APIs respondeu em tempo h'' @ [CHR 0xC3, CHR 0xA1]
              @ ''bil.'')"

subsection \<open>Time\<close>

text \<open>
  Time is counted in nanoseconds, as \<^verbatim>\<open>time.Duration\<close> does, from the creation of
  the context, which is where the race begins. The scheduler is not modelled: each
  goroutine comes with the instant at which it reaches its first effect (it blocks on
  its send, or panics), and \<^verbatim>\<open>main\<close>, blocked in its \<^verbatim>\<open>select\<close>, is woken at
  the first instant at which anything can happen.
\<close>

definition Second :: nat where
  "Second = 1000000000"

definition timeout :: nat where
  "timeout = 1 * Second"

fun offers_result :: "effect list \<Rightarrow> Address option" where
  "offers_result (ResultSend addr # _) = Some addr"
| "offers_result _ = None"

fun offers_err :: "effect list \<Rightarrow> error option" where
  "offers_err (ErrSend err # _) = Some err"
| "offers_err _ = None"

fun panics :: "effect list \<Rightarrow> bool" where
  "panics (Panic # _) = True"
| "panics _ = False"

text \<open>
  The channels at instant \<open>t\<close>, for a BrasilAPI goroutine that runs \<open>rB\<close> and reaches its
  first effect at \<open>dB\<close>, and a ViaCEP goroutine that runs \<open>rV\<close> and reaches it at \<open>dV\<close>.
\<close>

definition channels_at ::
  "nat \<Rightarrow> nat \<Rightarrow> effect list \<Rightarrow> nat \<Rightarrow> effect list \<Rightarrow> channels" where
  "channels_at t dB rB dV rV =
     \<lparr>brasilAPIResult = (if dB \<le> t then offers_result rB else None),
      brasilAPIErr = (if dB \<le> t then offers_err rB else None),
      viaCEPResult = (if dV \<le> t then offers_result rV else None),
      viaCEPErr = (if dV \<le> t then offers_err rV else None),
      ctx_Done = (timeout \<le> t)\<rparr>"

definition crashed_at ::
  "nat \<Rightarrow> nat \<Rightarrow> effect list \<Rightarrow> nat \<Rightarrow> effect list \<Rightarrow> bool" where
  "crashed_at t dB rB dV rV = ((dB \<le> t \<and> panics rB) \<or> (dV \<le> t \<and> panics rV))"

definition first_instant :: "nat \<Rightarrow> nat \<Rightarrow> nat" where
  "first_instant dB dV = min (min dB dV) timeout"

subsection \<open>The program\<close>

text \<open>
  How the process ends: \<^verbatim>\<open>main\<close> prints one line and returns, or a goroutine's
  panic ends the process first.
\<close>

datatype process_end = Exit stdout_line | GoPanic

text \<open>
  \<open>main os_Args client_Do dB dV e\<close>: started with \<open>os_Args\<close> on the network \<open>client_Do\<close>,
  with the BrasilAPI goroutine reaching its first effect at \<open>dB\<close> and the ViaCEP one at
  \<open>dV\<close>, the process can end as \<open>e\<close>.
\<close>

inductive main ::
  "string list \<Rightarrow> (Request \<Rightarrow> error + Response) \<Rightarrow> nat \<Rightarrow> nat \<Rightarrow> process_end \<Rightarrow> bool"
  for os_Args client_Do dB dV where
  main_select:
    "go_select
       (channels_at (first_instant dB dV)
          dB (fetchAddress client_Do (brasilAPI (main_cep os_Args)) True)
          dV (fetchAddress client_Do (viaCEP (main_cep os_Args)) False)) out
     \<Longrightarrow> main os_Args client_Do dB dV (Exit (report out))"
| main_panic:
    "crashed_at (first_instant dB dV)
       dB (fetchAddress client_Do (brasilAPI (main_cep os_Args)) True)
       dV (fetchAddress client_Do (viaCEP (main_cep os_Args)) False)
     \<Longrightarrow> main os_Args client_Do dB dV GoPanic"

code_pred main .

section \<open>Auxiliary notions for the statements\<close>

text \<open>The channel sends among the effects of a run.\<close>

definition sends :: "effect list \<Rightarrow> effect list" where
  "sends tr = filter (\<lambda>x. x \<noteq> Panic) tr"

text \<open>A network on which every request is answered with the same status and body.\<close>

definition serve :: "int \<Rightarrow> error + json \<Rightarrow> Request \<Rightarrow> error + Response" where
  "serve status body = (\<lambda>_. Inr \<lparr>StatusCode = status, Body = body\<rparr>)"

text \<open>A network on which every connection is refused.\<close>

definition refused :: "Request \<Rightarrow> error + Response" where
  "refused = (\<lambda>_. Inl (TransportError ''connection refused''))"

text \<open>
  A network on which BrasilAPI refuses the connection for the default key while every
  other request is answered with a ViaCEP body.
\<close>

definition brasilapi_refused :: "Request \<Rightarrow> error + Response" where
  "brasilapi_refused req =
     (if URL req = brasilAPI ''01153000'' then Inl (TransportError ''connection refused'')
      else Inr \<lparr>StatusCode = 200,
                Body = Inr (JObject [(''cep'', JString ''01153-000''), (''uf'', JString ''SP'')])\<rparr>)"

text \<open>The UTF-8 bytes of the three names with accents in the specification's example.\<close>

definition Praca_da_Se :: string where
  "Praca_da_Se = ''Pra'' @ [CHR 0xC3, CHR 0xA7] @ ''a da S'' @ [CHR 0xC3, CHR 0xA9]"

definition Se :: string where
  "Se = ''S'' @ [CHR 0xC3, CHR 0xA9]"

definition Sao_Paulo :: string where
  "Sao_Paulo = ''S'' @ [CHR 0xC3, CHR 0xA3] @ ''o Paulo''"

section \<open>Properties of \<^verbatim>\<open>fetchAddress\<close>\<close>

lemma fetchAddress_bad_url:
  "\<not> url_Parse_ok url \<Longrightarrow> fetchAddress client_Do url isBrasilAPI = [Panic]"
  by (simp add: fetchAddress_def http_NewRequestWithContext_def)

lemma fetchAddress_transport:
  "url_Parse_ok url \<Longrightarrow> client_Do \<lparr>Method = ''GET'', URL = url\<rparr> = Inl err
   \<Longrightarrow> fetchAddress client_Do url isBrasilAPI = [ErrSend err]"
  by (simp add: fetchAddress_def http_NewRequestWithContext_def)

lemma fetchAddress_brasil:
  "url_Parse_ok url \<Longrightarrow> client_Do \<lparr>Method = ''GET'', URL = url\<rparr> = Inr resp
   \<Longrightarrow> fetchAddress client_Do url True =
       (case json_Decode (Body resp) BrasilAPIResponse_tags of
          Inl err \<Rightarrow> [ErrSend err]
        | Inr fs \<Rightarrow>
            [ResultSend \<lparr>Cep = fs ''cep'', Logradouro = fs ''street'',
               Bairro = fs ''neighborhood'', Localidade = fs ''city'', Uf = fs ''state''\<rparr>])"
  by (simp add: fetchAddress_def http_NewRequestWithContext_def to_BrasilAPIResponse_def
      split: sum.splits)

lemma fetchAddress_viacep:
  "url_Parse_ok url \<Longrightarrow> client_Do \<lparr>Method = ''GET'', URL = url\<rparr> = Inr resp
   \<Longrightarrow> fetchAddress client_Do url False =
       (case json_Decode (Body resp) ViaCEPResponse_tags of
          Inl err \<Rightarrow> [ErrSend err]
        | Inr fs \<Rightarrow>
            [ResultSend \<lparr>Cep = fs ''cep'', Logradouro = fs ''logradouro'',
               Bairro = fs ''bairro'', Localidade = fs ''localidade'', Uf = fs ''uf''\<rparr>])"
  by (simp add: fetchAddress_def http_NewRequestWithContext_def to_ViaCEPResponse_def
      split: sum.splits)

lemma fetchAddress_cong:
  "client_Do \<lparr>Method = ''GET'', URL = url\<rparr> = client_Do' \<lparr>Method = ''GET'', URL = url\<rparr>
   \<Longrightarrow> fetchAddress client_Do url isBrasilAPI = fetchAddress client_Do' url isBrasilAPI"
  by (simp add: fetchAddress_def http_NewRequestWithContext_def)

text \<open>A run of \<open>fetchAddress\<close> is a panic, one result or one error.\<close>

lemma fetchAddress_shape:
  "(\<not> url_Parse_ok url \<and> fetchAddress client_Do url isBrasilAPI = [Panic])
   \<or> (url_Parse_ok url \<and> (\<exists>addr. fetchAddress client_Do url isBrasilAPI = [ResultSend addr]))
   \<or> (url_Parse_ok url \<and> (\<exists>err. fetchAddress client_Do url isBrasilAPI = [ErrSend err]))"
proof (cases "url_Parse_ok url")
  case False
  then show ?thesis by (simp add: fetchAddress_bad_url)
next
  case ok: True
  show ?thesis
  proof (cases "client_Do \<lparr>Method = ''GET'', URL = url\<rparr>")
    case (Inl err)
    with ok show ?thesis by (simp add: fetchAddress_transport)
  next
    case (Inr resp)
    show ?thesis
    proof (cases isBrasilAPI)
      case True
      then show ?thesis using ok
        by (cases "json_Decode (Body resp) BrasilAPIResponse_tags")
           (simp_all add: fetchAddress_brasil [where client_Do = client_Do, OF ok Inr])
    next
      case False
      then show ?thesis using ok
        by (cases "json_Decode (Body resp) ViaCEPResponse_tags")
           (simp_all add: fetchAddress_viacep [where client_Do = client_Do, OF ok Inr])
    qed
  qed
qed

lemma url_ok_default_b: "url_Parse_ok (brasilAPI ''01153000'')"
  by (simp add: url_Parse_ok_def brasilAPI_def isCTL_def ishex_def)

lemma url_ok_default_v: "url_Parse_ok (viaCEP ''01153000'')"
  by (simp add: url_Parse_ok_def viaCEP_def isCTL_def ishex_def)

lemma url_bad_b: "\<not> url_Parse_ok (brasilAPI ''%'')"
  by (simp add: url_Parse_ok_def brasilAPI_def isCTL_def ishex_def)

lemma url_bad_v: "\<not> url_Parse_ok (viaCEP ''%'')"
  by (simp add: url_Parse_ok_def viaCEP_def isCTL_def ishex_def)

subsection \<open>The decoder leaves a field that no key names at its zero value\<close>

lemma decode_member_untouched:
  "find_field tags (fst m) \<noteq> Some t \<Longrightarrow> fst (decode_member tags (fs, err) m) t = fs t"
  by (cases m) (auto split: option.splits json.splits)

lemma foldl_decode_member_untouched:
  "\<forall>m \<in> set members. find_field tags (fst m) \<noteq> Some t
   \<Longrightarrow> fst (foldl (decode_member tags) (fs, err) members) t = fs t"
proof (induction members arbitrary: fs err)
  case Nil
  then show ?case by simp
next
  case (Cons m members)
  obtain fs' err' where step: "decode_member tags (fs, err) m = (fs', err')"
    by (cases "decode_member tags (fs, err) m")
  from Cons.prems have "find_field tags (fst m) \<noteq> Some t" by simp
  then have "fst (decode_member tags (fs, err) m) t = fs t"
    by (rule decode_member_untouched)
  with step have "fs' t = fs t" by simp
  moreover from Cons.prems have "\<forall>m \<in> set members. find_field tags (fst m) \<noteq> Some t"
    by simp
  then have "fst (foldl (decode_member tags) (fs', err') members) t = fs' t"
    by (rule Cons.IH)
  ultimately show ?case using step by simp
qed

lemma decode_struct_omitted:
  assumes "decode_struct tags (JObject members) = Inr fs"
    and "\<forall>m \<in> set members. find_field tags (fst m) \<noteq> Some t"
  shows "fs t = []"
proof -
  from assms(1) have "fs = fst (foldl (decode_member tags) (zero_fields, None) members)"
    by (auto split: prod.splits option.splits)
  with foldl_decode_member_untouched [OF assms(2), of zero_fields None]
  show ?thesis by (simp add: zero_fields_def)
qed

lemma decode_brasil_full:
  "decode_struct BrasilAPIResponse_tags
     (JObject [(''cep'', JString c), (''state'', JString st), (''city'', JString ci),
               (''neighborhood'', JString n), (''street'', JString s),
               (''service'', JString sv)]) = Inr
     (zero_fields(''cep'' := c, ''state'' := st, ''city'' := ci, ''neighborhood'' := n,
        ''street'' := s, ''service'' := sv))"
  by (simp add: BrasilAPIResponse_tags_def find_field_def)

lemma decode_brasil_crafted:
  "decode_struct BrasilAPIResponse_tags
     (JObject [(''cep'', JString c), (''street'', JString s), (''neighborhood'', JString n),
               (''city'', JString ci), (''state'', JString st)]) = Inr
     (zero_fields(''cep'' := c, ''street'' := s, ''neighborhood'' := n, ''city'' := ci,
        ''state'' := st))"
  by (simp add: BrasilAPIResponse_tags_def find_field_def)

subsection \<open>A value that is neither a string nor null under a known key fails the decode\<close>

lemma saveError_Some: "\<exists>e'. saveError err e = Some e'"
  by (cases err) simp_all

lemma decode_member_keeps_error:
  assumes "snd acc \<noteq> None"
  shows "snd (decode_member tags acc m) \<noteq> None"
proof -
  obtain fs e0 where acc: "acc = (fs, Some e0)"
    using assms by (cases acc) auto
  obtain key v where m: "m = (key, v)" by (cases m)
  show ?thesis
    unfolding acc m
    by (cases "find_field tags key"; cases v) simp_all
qed

lemma foldl_decode_member_keeps_error:
  "snd acc \<noteq> None \<Longrightarrow> snd (foldl (decode_member tags) acc members) \<noteq> None"
proof (induction members arbitrary: acc)
  case Nil
  then show ?case by simp
next
  case (Cons x members)
  from Cons.prems have "snd (decode_member tags acc x) \<noteq> None"
    by (rule decode_member_keeps_error)
  then have "snd (foldl (decode_member tags) (decode_member tags acc x) members) \<noteq> None"
    by (rule Cons.IH)
  then show ?case by simp
qed

lemma decode_member_mismatch:
  assumes "find_field tags (fst m) \<noteq> None" and "\<forall>s. snd m \<noteq> JString s"
    and "snd m \<noteq> JNull"
  shows "snd (decode_member tags acc m) \<noteq> None"
proof -
  obtain fs err where acc: "acc = (fs, err)" by (cases acc)
  obtain key v where m: "m = (key, v)" by (cases m)
  from assms(1) m obtain f where f: "find_field tags key = Some f" by auto
  obtain e' where e': "saveError err (UnmarshalTypeError (kind v) f) = Some e'"
    using saveError_Some by blast
  from assms(2,3) m have "\<forall>s. v \<noteq> JString s" "v \<noteq> JNull" by simp_all
  then show ?thesis
    unfolding acc m using f e'
    by (cases v) simp_all
qed

lemma foldl_decode_member_mismatch:
  "m \<in> set members \<Longrightarrow> find_field tags (fst m) \<noteq> None
   \<Longrightarrow> (\<forall>s. snd m \<noteq> JString s) \<Longrightarrow> snd m \<noteq> JNull
   \<Longrightarrow> snd (foldl (decode_member tags) acc members) \<noteq> None"
proof (induction members arbitrary: acc)
  case Nil
  then show ?case by simp
next
  case (Cons x members)
  show ?case
  proof (cases "m = x")
    case True
    with Cons.prems have "snd (decode_member tags acc x) \<noteq> None"
      by (intro decode_member_mismatch) simp_all
    then have "snd (foldl (decode_member tags) (decode_member tags acc x) members) \<noteq> None"
      by (rule foldl_decode_member_keeps_error)
    then show ?thesis by simp
  next
    case False
    with Cons.prems have "m \<in> set members" by simp
    then have "snd (foldl (decode_member tags) (decode_member tags acc x) members) \<noteq> None"
      using Cons.prems(2-4) by (rule Cons.IH)
    then show ?thesis by simp
  qed
qed

lemma decode_struct_mismatch:
  assumes "m \<in> set members" and "find_field tags (fst m) \<noteq> None"
    and "\<forall>s. snd m \<noteq> JString s" and "snd m \<noteq> JNull"
  shows "isl (decode_struct tags (JObject members))"
proof -
  from foldl_decode_member_mismatch [OF assms, of "(zero_fields, None)"]
  have "snd (foldl (decode_member tags) (zero_fields, None) members) \<noteq> None" .
  then show ?thesis by (auto split: prod.splits option.splits)
qed

lemma decode_viacep_full:
  "decode_struct ViaCEPResponse_tags
     (JObject [(''cep'', JString c), (''logradouro'', JString l), (''complemento'', JString co),
               (''bairro'', JString b), (''localidade'', JString lo), (''uf'', JString u),
               (''ibge'', JString i), (''gia'', JString g), (''ddd'', JString d),
               (''siafi'', JString si)]) = Inr
     (zero_fields(''cep'' := c, ''logradouro'' := l, ''complemento'' := co, ''bairro'' := b,
        ''localidade'' := lo, ''uf'' := u, ''ibge'' := i, ''gia'' := g, ''ddd'' := d,
        ''siafi'' := si))"
  by (simp add: ViaCEPResponse_tags_def find_field_def)

section \<open>Properties of the race\<close>

lemma main_iff:
  "main os_Args client_Do dB dV e \<longleftrightarrow>
     (\<exists>out. go_select
       (channels_at (first_instant dB dV)
          dB (fetchAddress client_Do (brasilAPI (main_cep os_Args)) True)
          dV (fetchAddress client_Do (viaCEP (main_cep os_Args)) False)) out \<and> e = Exit (report out))
    \<or> (crashed_at (first_instant dB dV)
       dB (fetchAddress client_Do (brasilAPI (main_cep os_Args)) True)
       dV (fetchAddress client_Do (viaCEP (main_cep os_Args)) False) \<and> e = GoPanic)"
  by (auto simp: main.simps)

text \<open>Nothing can happen before \<open>first_instant\<close>: no case is enabled and nothing has panicked.\<close>

lemma nothing_before_first_instant:
  "t < first_instant dB dV \<Longrightarrow>
     \<not> go_select (channels_at t dB rB dV rV) out \<and> \<not> crashed_at t dB rB dV rV"
  by (auto simp: first_instant_def channels_at_def crashed_at_def go_select.simps)

lemma main_first_brasilAPI:
  assumes "dB < dV" and "dB < timeout"
  shows "main os_Args client_Do dB dV e \<longleftrightarrow>
     (case fetchAddress client_Do (brasilAPI (main_cep os_Args)) True of
        ResultSend addr # _ \<Rightarrow> e = Exit (report (BrasilAPI_Address addr))
      | ErrSend err # _ \<Rightarrow> e = Exit (report (BrasilAPI_Erro err))
      | Panic # _ \<Rightarrow> e = GoPanic
      | [] \<Rightarrow> False)"
proof -
  from assms have t: "first_instant dB dV = dB" "\<not> dV \<le> dB" "\<not> timeout \<le> dB"
    by (simp_all add: first_instant_def)
  show ?thesis
    unfolding main_iff t channels_at_def crashed_at_def go_select.simps
    by (cases "fetchAddress client_Do (brasilAPI (main_cep os_Args)) True" rule: offers_result.cases)
       (auto simp: t)
qed

lemma main_first_viaCEP:
  assumes "dV < dB" and "dV < timeout"
  shows "main os_Args client_Do dB dV e \<longleftrightarrow>
     (case fetchAddress client_Do (viaCEP (main_cep os_Args)) False of
        ResultSend addr # _ \<Rightarrow> e = Exit (report (ViaCEP_Address addr))
      | ErrSend err # _ \<Rightarrow> e = Exit (report (ViaCEP_Erro err))
      | Panic # _ \<Rightarrow> e = GoPanic
      | [] \<Rightarrow> False)"
proof -
  from assms have t: "first_instant dB dV = dV" "\<not> dB \<le> dV" "\<not> timeout \<le> dV"
    by (simp_all add: first_instant_def)
  show ?thesis
    unfolding main_iff t channels_at_def crashed_at_def go_select.simps
    by (cases "fetchAddress client_Do (viaCEP (main_cep os_Args)) False" rule: offers_result.cases)
       (auto simp: t)
qed

lemma main_deadline_first:
  assumes "timeout < dB" and "timeout < dV"
  shows "main os_Args client_Do dB dV e \<longleftrightarrow> e = Exit (report Timeout)"
proof -
  from assms have t: "first_instant dB dV = timeout" "\<not> dB \<le> timeout" "\<not> dV \<le> timeout"
    by (simp_all add: first_instant_def)
  show ?thesis
    unfolding main_iff t channels_at_def crashed_at_def go_select.simps
    by (auto simp: t)
qed

text \<open>The race always resolves: at \<open>first_instant\<close> the process has a way to end.\<close>

lemma main_total: "\<exists>e. main os_Args client_Do dB dV e"
proof -
  consider "dB < dV \<and> dB < timeout" | "dV < dB \<and> dV < timeout"
    | "timeout \<le> dB \<and> timeout \<le> dV" | "dB = dV \<and> dB < timeout"
    by linarith
  then show ?thesis
  proof cases
    case 1
    then show ?thesis
      using fetchAddress_shape [of "brasilAPI (main_cep os_Args)" client_Do True]
      by (auto simp: main_first_brasilAPI)
  next
    case 2
    then show ?thesis
      using fetchAddress_shape [of "viaCEP (main_cep os_Args)" client_Do False]
      by (auto simp: main_first_viaCEP)
  next
    case 3
    then have "ctx_Done (channels_at (first_instant dB dV)
          dB (fetchAddress client_Do (brasilAPI (main_cep os_Args)) True)
          dV (fetchAddress client_Do (viaCEP (main_cep os_Args)) False))"
      by (simp add: channels_at_def first_instant_def)
    then show ?thesis
      by (blast intro: main_select case_ctx_Done)
  next
    case 4
    then have t: "first_instant dB dV = dB" by (simp add: first_instant_def)
    from fetchAddress_shape [of "brasilAPI (main_cep os_Args)" client_Do True]
    show ?thesis
      unfolding main_iff t channels_at_def crashed_at_def go_select.simps
      by (elim disjE conjE exE) (simp; blast)+
  qed
qed

section \<open>The properties of the specification\<close>

text \<open>
  C1. The race resolves to the first signal of any kind. When one provider's goroutine is
  the first to reach its send, before the other goroutine and before the deadline, the
  process ends by printing exactly what that goroutine offers, and nothing else is possible:
  an error of BrasilAPI or of ViaCEP ends the race with its \<^verbatim>\<open>Erro (...)\<close> line just
  as a result ends it with its address line, whatever the sibling, still pending, would
  have answered.
\<close>

theorem C1_first_signal_wins:
  "(dB < dV \<and> dB < timeout
      \<and> fetchAddress client_Do (brasilAPI (main_cep os_Args)) True = [ErrSend err]
    \<longrightarrow> (\<forall>e. main os_Args client_Do dB dV e \<longleftrightarrow>
              e = Exit (Printf (''Erro (Brasil API): %v'' @ [CHR 0x0A]) [V err])))
   \<and> (dV < dB \<and> dV < timeout
      \<and> fetchAddress client_Do (viaCEP (main_cep os_Args)) False = [ErrSend err]
    \<longrightarrow> (\<forall>e. main os_Args client_Do dB dV e \<longleftrightarrow>
              e = Exit (Printf (''Erro (ViaCEP): %v'' @ [CHR 0x0A]) [V err])))
   \<and> (dB < dV \<and> dB < timeout
      \<and> fetchAddress client_Do (brasilAPI (main_cep os_Args)) True = [ResultSend addr]
    \<longrightarrow> (\<forall>e. main os_Args client_Do dB dV e \<longleftrightarrow> e = Exit (report (BrasilAPI_Address addr))))
   \<and> (dV < dB \<and> dV < timeout
      \<and> fetchAddress client_Do (viaCEP (main_cep os_Args)) False = [ResultSend addr]
    \<longrightarrow> (\<forall>e. main os_Args client_Do dB dV e \<longleftrightarrow> e = Exit (report (ViaCEP_Address addr))))"
  by (simp add: main_first_brasilAPI main_first_viaCEP)

text \<open>
  At the default key BrasilAPI refuses the connection after 5 ns while ViaCEP, which
  would have answered with an address, needs 7 ns: the process can only print the error.
\<close>

theorem C1_first_signal_wins_witness:
  "fetchAddress brasilapi_refused (viaCEP ''01153000'') False =
     [ResultSend \<lparr>Cep = ''01153-000'', Logradouro = [], Bairro = [], Localidade = [],
        Uf = ''SP''\<rparr>]
   \<and> (\<forall>e. main [''cep''] brasilapi_refused 5 7 e \<longleftrightarrow>
        e = Exit (Printf (''Erro (Brasil API): %v'' @ [CHR 0x0A])
                    [V (TransportError ''connection refused'')]))"
proof
  have "viaCEP ''01153000'' \<noteq> brasilAPI ''01153000''"
    by (simp add: viaCEP_def brasilAPI_def)
  then have net: "brasilapi_refused \<lparr>Method = ''GET'', URL = viaCEP ''01153000''\<rparr> =
      Inr \<lparr>StatusCode = 200,
           Body = Inr (JObject [(''cep'', JString ''01153-000''), (''uf'', JString ''SP'')])\<rparr>"
    by (simp add: brasilapi_refused_def)
  show "fetchAddress brasilapi_refused (viaCEP ''01153000'') False =
     [ResultSend \<lparr>Cep = ''01153-000'', Logradouro = [], Bairro = [], Localidade = [],
        Uf = ''SP''\<rparr>]"
    by (simp add: fetchAddress_viacep [where client_Do = brasilapi_refused,
          OF url_ok_default_v net]
        json_Decode_def ViaCEPResponse_tags_def find_field_def zero_fields_def)
next
  have net: "brasilapi_refused \<lparr>Method = ''GET'', URL = brasilAPI ''01153000''\<rparr> =
      Inl (TransportError ''connection refused'')"
    by (simp add: brasilapi_refused_def)
  have f: "fetchAddress brasilapi_refused (brasilAPI (main_cep [''cep''])) True =
      [ErrSend (TransportError ''connection refused'')]"
    by (simp add: main_cep_def
        fetchAddress_transport [where client_Do = brasilapi_refused, OF url_ok_default_b net])
  have t: "(5::nat) < 7 \<and> 5 < timeout" by (simp add: timeout_def Second_def)
  from C1_first_signal_wins [where dB = 5 and dV = 7 and os_Args = "[''cep'']"
      and err = "TransportError ''connection refused''" and client_Do = brasilapi_refused]
    f t
  show "\<forall>e. main [''cep''] brasilapi_refused 5 7 e \<longleftrightarrow>
        e = Exit (Printf (''Erro (Brasil API): %v'' @ [CHR 0x0A])
                    [V (TransportError ''connection refused'')])"
    by blast
qed

text \<open>
  C2. The deadline of the race is one second (\<open>10\<^sup>9\<close> ns) from its start, shared by both
  goroutines. When neither goroutine has got as far as its send by the deadline, that
  is when the deadline is below the latency of both adapters, the process can only print
  the timeout line: the outcome is Timeout, never a result and never an error.
\<close>

theorem C2_deadline_one_second:
  "timeout = 1000000000
   \<and> (timeout < dB \<and> timeout < dV
      \<longrightarrow> (\<forall>e. main os_Args client_Do dB dV e \<longleftrightarrow>
                e = Exit (Println (''Timeout: Nenhuma das APIs respondeu em tempo h''
                                   @ [CHR 0xC3, CHR 0xA1] @ ''bil.''))))"
  by (simp add: main_deadline_first) (simp add: timeout_def Second_def)

theorem C2_deadline_one_second_witness:
  "\<forall>e. main [''cep''] (serve 200 (Inr (JObject [(''cep'', JString ''01153-000'')])))
          1000000001 2000000000 e \<longleftrightarrow>
        e = Exit (Println (''Timeout: Nenhuma das APIs respondeu em tempo h''
                           @ [CHR 0xC3, CHR 0xA1] @ ''bil.''))"
proof -
  have t: "timeout < 1000000001 \<and> timeout < 2000000000"
    by (simp add: timeout_def Second_def)
  from C2_deadline_one_second [where dB = 1000000001 and dV = 2000000000
      and os_Args = "[''cep'']"
      and client_Do = "serve 200 (Inr (JObject [(''cep'', JString ''01153-000'')]))"] t
  show ?thesis by blast
qed

text \<open>
  C3. The Address sent for a BrasilAPI response is the field-by-field mapping of the
  decoded \<open>BrasilAPIResponse\<close>: postal code from \<open>cep\<close>, street from \<open>street\<close>, neighbourhood
  from \<open>neighborhood\<close>, city from \<open>city\<close>, state from \<open>state\<close>. For a body with the six
  fields of the provider as strings these are the strings of the body, and the
  specification's crafted response maps to the Address it names.
\<close>

theorem C3_brasilapi_mapping:
  "(url_Parse_ok url \<and> client_Do \<lparr>Method = ''GET'', URL = url\<rparr> = Inr resp
      \<and> json_Decode (Body resp) BrasilAPIResponse_tags = Inr fs
    \<longrightarrow> fetchAddress client_Do url True =
          [ResultSend
             \<lparr>Cep = br_Cep (to_BrasilAPIResponse fs),
              Logradouro = br_Street (to_BrasilAPIResponse fs),
              Bairro = br_Neighborhood (to_BrasilAPIResponse fs),
              Localidade = br_City (to_BrasilAPIResponse fs),
              Uf = br_State (to_BrasilAPIResponse fs)\<rparr>])
   \<and> (url_Parse_ok url \<longrightarrow>
        fetchAddress
          (serve status (Inr (JObject
             [(''cep'', JString c), (''state'', JString st), (''city'', JString ci),
              (''neighborhood'', JString n), (''street'', JString s),
              (''service'', JString sv)]))) url True =
          [ResultSend \<lparr>Cep = c, Logradouro = s, Bairro = n, Localidade = ci, Uf = st\<rparr>])
   \<and> fetchAddress
        (serve 200 (Inr (JObject
           [(''cep'', JString ''01001000''), (''street'', JString Praca_da_Se),
            (''neighborhood'', JString Se), (''city'', JString Sao_Paulo),
            (''state'', JString ''SP'')]))) (brasilAPI ''01001000'') True =
        [ResultSend \<lparr>Cep = ''01001000'', Logradouro = Praca_da_Se, Bairro = Se,
           Localidade = Sao_Paulo, Uf = ''SP''\<rparr>]"
proof (intro conjI impI)
  assume "url_Parse_ok url \<and> client_Do \<lparr>Method = ''GET'', URL = url\<rparr> = Inr resp
      \<and> json_Decode (Body resp) BrasilAPIResponse_tags = Inr fs"
  then show "fetchAddress client_Do url True =
          [ResultSend
             \<lparr>Cep = br_Cep (to_BrasilAPIResponse fs),
              Logradouro = br_Street (to_BrasilAPIResponse fs),
              Bairro = br_Neighborhood (to_BrasilAPIResponse fs),
              Localidade = br_City (to_BrasilAPIResponse fs),
              Uf = br_State (to_BrasilAPIResponse fs)\<rparr>]"
    by (simp add: fetchAddress_brasil [where client_Do = client_Do] to_BrasilAPIResponse_def)
next
  assume "url_Parse_ok url"
  then show "fetchAddress
          (serve status (Inr (JObject
             [(''cep'', JString c), (''state'', JString st), (''city'', JString ci),
              (''neighborhood'', JString n), (''street'', JString s),
              (''service'', JString sv)]))) url True =
          [ResultSend \<lparr>Cep = c, Logradouro = s, Bairro = n, Localidade = ci, Uf = st\<rparr>]"
    by (simp add: serve_def fetchAddress_brasil json_Decode_def decode_brasil_full
        del: decode_struct.simps)
next
  have ok: "url_Parse_ok (brasilAPI ''01001000'')"
    by (simp add: url_Parse_ok_def brasilAPI_def isCTL_def ishex_def)
  show "fetchAddress
        (serve 200 (Inr (JObject
           [(''cep'', JString ''01001000''), (''street'', JString Praca_da_Se),
            (''neighborhood'', JString Se), (''city'', JString Sao_Paulo),
            (''state'', JString ''SP'')]))) (brasilAPI ''01001000'') True =
        [ResultSend \<lparr>Cep = ''01001000'', Logradouro = Praca_da_Se, Bairro = Se,
           Localidade = Sao_Paulo, Uf = ''SP''\<rparr>]"
    by (simp add: serve_def fetchAddress_brasil [OF ok] json_Decode_def decode_brasil_crafted
        del: decode_struct.simps)
qed

theorem C3_brasilapi_mapping_witness:
  "fetchAddress
     (serve 200 (Inr (JObject
        [(''cep'', JString ''01153000''), (''state'', JString ''SP''),
         (''city'', JString ''Sao Paulo''), (''neighborhood'', JString ''Barra Funda''),
         (''street'', JString ''Rua Vitorino Carmilo''),
         (''service'', JString ''open-cep'')]))) (brasilAPI ''01153000'') True =
     [ResultSend \<lparr>Cep = ''01153000'', Logradouro = ''Rua Vitorino Carmilo'',
        Bairro = ''Barra Funda'', Localidade = ''Sao Paulo'', Uf = ''SP''\<rparr>]"
  using C3_brasilapi_mapping [where url = "brasilAPI ''01153000''" and c = "''01153000''"
      and st = "''SP''" and ci = "''Sao Paulo''" and n = "''Barra Funda''"
      and s = "''Rua Vitorino Carmilo''" and sv = "''open-cep''" and status = 200]
    url_ok_default_b
  by blast

text \<open>
  C4. For a ViaCEP response whose body decodes under the \<open>ViaCEPResponse\<close> schema, the
  Address sent takes postal code, street, neighbourhood, city and state from the fields
  \<open>cep\<close>, \<open>logradouro\<close>, \<open>bairro\<close>, \<open>localidade\<close> and \<open>uf\<close>. Nothing else of the response reaches
  it: two responses that decode and agree on these five fields give the same Address,
  whatever \<open>complemento\<close>, \<open>ibge\<close>, \<open>gia\<close>, \<open>ddd\<close> and \<open>siafi\<close> hold, and for a body with the ten
  fields as strings the Address holds the five strings. A field of the five that no key
  of the body names is the empty string. The ten fields are all decoded, though: a value
  that is neither a string nor \<^verbatim>\<open>null\<close> under any of them, the five unused ones
  included, makes the decode fail, and the call sends an error and no Address.
\<close>

theorem C4_viacep_mapping:
  assumes ok: "url_Parse_ok url"
    and net: "client_Do \<lparr>Method = ''GET'', URL = url\<rparr> = Inr resp"
  shows "(\<forall>fs. json_Decode (Body resp) ViaCEPResponse_tags = Inr fs \<longrightarrow>
            fetchAddress client_Do url False =
              [ResultSend
                 \<lparr>Cep = vc_Cep (to_ViaCEPResponse fs),
                  Logradouro = vc_Logradouro (to_ViaCEPResponse fs),
                  Bairro = vc_Bairro (to_ViaCEPResponse fs),
                  Localidade = vc_Localidade (to_ViaCEPResponse fs),
                  Uf = vc_Uf (to_ViaCEPResponse fs)\<rparr>]
          \<and> fetchAddress client_Do url False =
              [ResultSend
                 \<lparr>Cep = fs ''cep'', Logradouro = fs ''logradouro'', Bairro = fs ''bairro'',
                  Localidade = fs ''localidade'', Uf = fs ''uf''\<rparr>]
          \<and> (\<forall>client_Do' resp' fs'.
                client_Do' \<lparr>Method = ''GET'', URL = url\<rparr> = Inr resp'
                \<and> json_Decode (Body resp') ViaCEPResponse_tags = Inr fs'
                \<and> (\<forall>t \<in> {''cep'', ''logradouro'', ''bairro'', ''localidade'', ''uf''}.
                      fs' t = fs t)
                \<longrightarrow> fetchAddress client_Do' url False = fetchAddress client_Do url False)
          \<and> (\<forall>members t.
                Body resp = Inr (JObject members)
                \<and> t \<in> {''cep'', ''logradouro'', ''bairro'', ''localidade'', ''uf''}
                \<and> (\<forall>m \<in> set members. find_field ViaCEPResponse_tags (fst m) \<noteq> Some t)
                \<longrightarrow> fs t = []))
       \<and> (\<forall>c l co b lo u i g d si.
             Body resp = Inr (JObject
               [(''cep'', JString c), (''logradouro'', JString l),
                (''complemento'', JString co), (''bairro'', JString b),
                (''localidade'', JString lo), (''uf'', JString u), (''ibge'', JString i),
                (''gia'', JString g), (''ddd'', JString d), (''siafi'', JString si)])
             \<longrightarrow> fetchAddress client_Do url False =
                   [ResultSend
                      \<lparr>Cep = c, Logradouro = l, Bairro = b, Localidade = lo, Uf = u\<rparr>])
       \<and> (\<forall>members m.
             Body resp = Inr (JObject members) \<and> m \<in> set members
             \<and> find_field ViaCEPResponse_tags (fst m) \<noteq> None
             \<and> (\<forall>s. snd m \<noteq> JString s) \<and> snd m \<noteq> JNull
             \<longrightarrow> (\<exists>err. fetchAddress client_Do url False = [ErrSend err]))"
proof (intro conjI allI impI)
  fix fs
  assume dec: "json_Decode (Body resp) ViaCEPResponse_tags = Inr fs"
  show tags: "fetchAddress client_Do url False =
      [ResultSend
         \<lparr>Cep = fs ''cep'', Logradouro = fs ''logradouro'', Bairro = fs ''bairro'',
          Localidade = fs ''localidade'', Uf = fs ''uf''\<rparr>]"
    using dec by (simp add: fetchAddress_viacep [where client_Do = client_Do, OF ok net])
  then show "fetchAddress client_Do url False =
      [ResultSend
         \<lparr>Cep = vc_Cep (to_ViaCEPResponse fs),
          Logradouro = vc_Logradouro (to_ViaCEPResponse fs),
          Bairro = vc_Bairro (to_ViaCEPResponse fs),
          Localidade = vc_Localidade (to_ViaCEPResponse fs),
          Uf = vc_Uf (to_ViaCEPResponse fs)\<rparr>]"
    by (simp add: to_ViaCEPResponse_def)
next
  fix fs and client_Do' :: "Request \<Rightarrow> error + Response" and resp' :: Response
    and fs' :: fields
  assume dec: "json_Decode (Body resp) ViaCEPResponse_tags = Inr fs"
  assume h: "client_Do' \<lparr>Method = ''GET'', URL = url\<rparr> = Inr resp'
             \<and> json_Decode (Body resp') ViaCEPResponse_tags = Inr fs'
             \<and> (\<forall>t \<in> {''cep'', ''logradouro'', ''bairro'', ''localidade'', ''uf''}.
                   fs' t = fs t)"
  then have net': "client_Do' \<lparr>Method = ''GET'', URL = url\<rparr> = Inr resp'"
    and dec': "json_Decode (Body resp') ViaCEPResponse_tags = Inr fs'"
    and eq: "\<forall>t \<in> {''cep'', ''logradouro'', ''bairro'', ''localidade'', ''uf''}. fs' t = fs t"
    by blast+
  from eq have "fs' ''cep'' = fs ''cep''" "fs' ''logradouro'' = fs ''logradouro''"
    "fs' ''bairro'' = fs ''bairro''" "fs' ''localidade'' = fs ''localidade''"
    "fs' ''uf'' = fs ''uf''"
    by blast+
  then show "fetchAddress client_Do' url False = fetchAddress client_Do url False"
    using dec dec'
    by (simp add: fetchAddress_viacep [where client_Do = client_Do, OF ok net]
        fetchAddress_viacep [where client_Do = client_Do', OF ok net'])
next
  fix fs and members :: "(string \<times> json) list" and t :: string
  assume dec: "json_Decode (Body resp) ViaCEPResponse_tags = Inr fs"
  assume h: "Body resp = Inr (JObject members)
             \<and> t \<in> {''cep'', ''logradouro'', ''bairro'', ''localidade'', ''uf''}
             \<and> (\<forall>m \<in> set members. find_field ViaCEPResponse_tags (fst m) \<noteq> Some t)"
  then have body: "Body resp = Inr (JObject members)"
    and none: "\<forall>m \<in> set members. find_field ViaCEPResponse_tags (fst m) \<noteq> Some t"
    by blast+
  from dec body have "decode_struct ViaCEPResponse_tags (JObject members) = Inr fs"
    by (simp add: json_Decode_def del: decode_struct.simps)
  then show "fs t = []" using none by (rule decode_struct_omitted)
next
  fix c l co b lo u i g d si
  assume "Body resp = Inr (JObject
               [(''cep'', JString c), (''logradouro'', JString l),
                (''complemento'', JString co), (''bairro'', JString b),
                (''localidade'', JString lo), (''uf'', JString u), (''ibge'', JString i),
                (''gia'', JString g), (''ddd'', JString d), (''siafi'', JString si)])"
  then show "fetchAddress client_Do url False =
      [ResultSend \<lparr>Cep = c, Logradouro = l, Bairro = b, Localidade = lo, Uf = u\<rparr>]"
    by (simp add: fetchAddress_viacep [where client_Do = client_Do, OF ok net]
        json_Decode_def decode_viacep_full del: decode_struct.simps)
next
  fix members :: "(string \<times> json) list" and m :: "string \<times> json"
  assume h: "Body resp = Inr (JObject members) \<and> m \<in> set members
             \<and> find_field ViaCEPResponse_tags (fst m) \<noteq> None
             \<and> (\<forall>s. snd m \<noteq> JString s) \<and> snd m \<noteq> JNull"
  then have body: "Body resp = Inr (JObject members)" by blast
  from h have "isl (decode_struct ViaCEPResponse_tags (JObject members))"
    by (intro decode_struct_mismatch [where m = m]) blast+
  then obtain err where "decode_struct ViaCEPResponse_tags (JObject members) = Inl err"
    by (cases "decode_struct ViaCEPResponse_tags (JObject members)") simp_all
  with body have "fetchAddress client_Do url False = [ErrSend err]"
    by (simp add: fetchAddress_viacep [where client_Do = client_Do, OF ok net]
        json_Decode_def del: decode_struct.simps)
  then show "\<exists>err. fetchAddress client_Do url False = [ErrSend err]" by blast
qed

text \<open>
  A full ViaCEP body gives the Address of its five fields. A body with \<open>cep\<close>, \<open>localidade\<close>
  and \<open>ibge\<close> only leaves street, neighbourhood and state empty, and a body with another
  \<open>ibge\<close> and a \<open>ddd\<close> gives the same Address. A body whose \<open>ibge\<close> is a number gives an error.
\<close>

theorem C4_viacep_mapping_witness:
  "fetchAddress
     (serve 200 (Inr (JObject
        [(''cep'', JString ''01153-000''), (''logradouro'', JString ''Rua Vitorino Carmilo''),
         (''complemento'', JString ''''), (''bairro'', JString ''Barra Funda''),
         (''localidade'', JString ''Sao Paulo''), (''uf'', JString ''SP''),
         (''ibge'', JString ''3550308''), (''gia'', JString ''1004''),
         (''ddd'', JString ''11''), (''siafi'', JString ''7107'')])))
     (viaCEP ''01153000'') False =
     [ResultSend \<lparr>Cep = ''01153-000'', Logradouro = ''Rua Vitorino Carmilo'',
        Bairro = ''Barra Funda'', Localidade = ''Sao Paulo'', Uf = ''SP''\<rparr>]
   \<and> fetchAddress
     (serve 200 (Inr (JObject [(''cep'', JString ''01153-000''),
        (''localidade'', JString ''Sao Paulo''), (''ibge'', JString ''3550308'')])))
     (viaCEP ''01153000'') False =
     [ResultSend \<lparr>Cep = ''01153-000'', Logradouro = [], Bairro = [],
        Localidade = ''Sao Paulo'', Uf = []\<rparr>]
   \<and> fetchAddress
       (serve 200 (Inr (JObject [(''cep'', JString ''01153-000''),
          (''localidade'', JString ''Sao Paulo''), (''ibge'', JString ''0''),
          (''ddd'', JString ''11'')])))
       (viaCEP ''01153000'') False =
     fetchAddress
       (serve 200 (Inr (JObject [(''cep'', JString ''01153-000''),
          (''localidade'', JString ''Sao Paulo''), (''ibge'', JString ''3550308'')])))
       (viaCEP ''01153000'') False
   \<and> (\<exists>err. fetchAddress
       (serve 200 (Inr (JObject [(''cep'', JString ''01153-000''),
          (''ibge'', JNumber ''3550308'')])))
       (viaCEP ''01153000'') False = [ErrSend err])"
proof -
  let ?full = "[(''cep'', JString ''01153-000''), (''logradouro'', JString ''Rua Vitorino Carmilo''),
         (''complemento'', JString ''''), (''bairro'', JString ''Barra Funda''),
         (''localidade'', JString ''Sao Paulo''), (''uf'', JString ''SP''),
         (''ibge'', JString ''3550308''), (''gia'', JString ''1004''),
         (''ddd'', JString ''11''), (''siafi'', JString ''7107'')]"
  let ?members = "[(''cep'', JString ''01153-000''), (''localidade'', JString ''Sao Paulo''),
                   (''ibge'', JString ''3550308'')]"
  let ?members' = "[(''cep'', JString ''01153-000''), (''localidade'', JString ''Sao Paulo''),
                    (''ibge'', JString ''0''), (''ddd'', JString ''11'')]"
  let ?bad = "[(''cep'', JString ''01153-000''), (''ibge'', JNumber ''3550308'')]"
  let ?fs = "zero_fields(''cep'' := ''01153-000'', ''localidade'' := ''Sao Paulo'',
               ''ibge'' := ''3550308'')"
  let ?fs' = "zero_fields(''cep'' := ''01153-000'', ''localidade'' := ''Sao Paulo'',
               ''ibge'' := ''0'', ''ddd'' := ''11'')"
  let ?req = "\<lparr>Method = ''GET'', URL = viaCEP ''01153000''\<rparr>"
  have net: "\<And>ms. serve 200 (Inr (JObject ms)) ?req
      = Inr \<lparr>StatusCode = 200, Body = Inr (JObject ms)\<rparr>"
    by (simp add: serve_def)
  have dec: "json_Decode (Body \<lparr>StatusCode = 200, Body = Inr (JObject ?members)\<rparr>)
      ViaCEPResponse_tags = Inr ?fs"
    by (simp add: json_Decode_def ViaCEPResponse_tags_def find_field_def)
  have dec': "json_Decode (Body \<lparr>StatusCode = 200, Body = Inr (JObject ?members')\<rparr>)
      ViaCEPResponse_tags = Inr ?fs'"
    by (simp add: json_Decode_def ViaCEPResponse_tags_def find_field_def)
  have agree: "\<forall>t \<in> {''cep'', ''logradouro'', ''bairro'', ''localidade'', ''uf''}. ?fs' t = ?fs t"
    by (simp add: zero_fields_def)
  have omitted: "\<forall>m \<in> set ?members. find_field ViaCEPResponse_tags (fst m) \<noteq> Some ''logradouro''"
    by (simp add: ViaCEPResponse_tags_def find_field_def)
  note full = C4_viacep_mapping [where client_Do = "serve 200 (Inr (JObject ?full))",
      OF url_ok_default_v net]
  note part = C4_viacep_mapping [where client_Do = "serve 200 (Inr (JObject ?members))",
      OF url_ok_default_v net, THEN conjunct1, rule_format, OF dec]
  note bad = C4_viacep_mapping [where client_Do = "serve 200 (Inr (JObject ?bad))",
      OF url_ok_default_v net]
  have 1: "fetchAddress (serve 200 (Inr (JObject ?full))) (viaCEP ''01153000'') False =
      [ResultSend \<lparr>Cep = ''01153-000'', Logradouro = ''Rua Vitorino Carmilo'',
        Bairro = ''Barra Funda'', Localidade = ''Sao Paulo'', Uf = ''SP''\<rparr>]"
    by (rule full [THEN conjunct2, THEN conjunct1, rule_format]) simp
  have tags: "fetchAddress (serve 200 (Inr (JObject ?members))) (viaCEP ''01153000'') False =
      [ResultSend \<lparr>Cep = ?fs ''cep'', Logradouro = ?fs ''logradouro'', Bairro = ?fs ''bairro'',
         Localidade = ?fs ''localidade'', Uf = ?fs ''uf''\<rparr>]"
    by (rule part [THEN conjunct2, THEN conjunct1])
  have "?fs ''logradouro'' = []"
    by (rule part [THEN conjunct2, THEN conjunct2, THEN conjunct2, rule_format,
          where members = ?members]) (simp add: omitted)
  with tags have 2: "fetchAddress (serve 200 (Inr (JObject ?members))) (viaCEP ''01153000'') False =
      [ResultSend \<lparr>Cep = ''01153-000'', Logradouro = [], Bairro = [],
         Localidade = ''Sao Paulo'', Uf = []\<rparr>]"
    by (simp add: zero_fields_def)
  have 3: "fetchAddress (serve 200 (Inr (JObject ?members'))) (viaCEP ''01153000'') False =
        fetchAddress (serve 200 (Inr (JObject ?members))) (viaCEP ''01153000'') False"
    by (rule part [THEN conjunct2, THEN conjunct2, THEN conjunct1, rule_format])
       (intro conjI, rule net, rule dec', rule agree)
  have 4: "\<exists>err. fetchAddress (serve 200 (Inr (JObject ?bad))) (viaCEP ''01153000'') False
      = [ErrSend err]"
    by (rule bad [THEN conjunct2, THEN conjunct2, rule_format,
          where m = "(''ibge'', JNumber ''3550308'')" and members = ?bad])
       (simp add: ViaCEPResponse_tags_def find_field_def)
  from 1 2 3 4 show ?thesis by blast
qed

text \<open>
  Read without the restriction to responses that decode, C4 fails: \<open>ibge\<close> is one of
  the fields said to be ignored, yet of two ViaCEP bodies that differ in \<open>ibge\<close> alone the
  one with a string gives an Address and the one with a number gives an error.
\<close>

theorem C4_unused_field_counterexample:
  "fetchAddress
     (serve 200 (Inr (JObject [(''cep'', JString ''01153-000''),
        (''ibge'', JNumber ''3550308'')])))
     (viaCEP ''01153000'') False = [ErrSend (UnmarshalTypeError ''number'' ''ibge'')]
   \<and> fetchAddress
     (serve 200 (Inr (JObject [(''cep'', JString ''01153-000''),
        (''ibge'', JString ''3550308'')])))
     (viaCEP ''01153000'') False =
     [ResultSend \<lparr>Cep = ''01153-000'', Logradouro = [], Bairro = [], Localidade = [],
        Uf = []\<rparr>]"
  by (simp add: serve_def fetchAddress_viacep [OF url_ok_default_v] json_Decode_def
      ViaCEPResponse_tags_def find_field_def zero_fields_def)

text \<open>
  C5. \<open>fetchAddress\<close> never reads the status code. Whatever the status of the response,
  when its body decodes under the provider's schema the one effect of the call is the
  send of the mapped Address on the result channel. A 404 with the body \<^verbatim>\<open>{}\<close> and a
  500 with a body of other fields are successes with every field blank.
\<close>

theorem C5_status_not_inspected:
  "(url_Parse_ok url
      \<and> json_Decode body (if isBrasilAPI then BrasilAPIResponse_tags else ViaCEPResponse_tags)
          = Inr fs
    \<longrightarrow> fetchAddress (serve status body) url isBrasilAPI =
          [ResultSend
             \<lparr>Cep = fs ''cep'',
              Logradouro = fs (if isBrasilAPI then ''street'' else ''logradouro''),
              Bairro = fs (if isBrasilAPI then ''neighborhood'' else ''bairro''),
              Localidade = fs (if isBrasilAPI then ''city'' else ''localidade''),
              Uf = fs (if isBrasilAPI then ''state'' else ''uf'')\<rparr>])
   \<and> fetchAddress (serve 404 (Inr (JObject []))) (viaCEP ''01153000'') False =
        [ResultSend \<lparr>Cep = [], Logradouro = [], Bairro = [], Localidade = [], Uf = []\<rparr>]
   \<and> fetchAddress
        (serve 500 (Inr (JObject [(''message'', JString ''erro''), (''errors'', JArray [])])))
        (brasilAPI ''01153000'') True =
        [ResultSend \<lparr>Cep = [], Logradouro = [], Bairro = [], Localidade = [], Uf = []\<rparr>]"
proof (intro conjI impI)
  assume h: "url_Parse_ok url
      \<and> json_Decode body (if isBrasilAPI then BrasilAPIResponse_tags else ViaCEPResponse_tags)
          = Inr fs"
  then have ok: "url_Parse_ok url" by blast
  show "fetchAddress (serve status body) url isBrasilAPI =
          [ResultSend
             \<lparr>Cep = fs ''cep'',
              Logradouro = fs (if isBrasilAPI then ''street'' else ''logradouro''),
              Bairro = fs (if isBrasilAPI then ''neighborhood'' else ''bairro''),
              Localidade = fs (if isBrasilAPI then ''city'' else ''localidade''),
              Uf = fs (if isBrasilAPI then ''state'' else ''uf'')\<rparr>]"
  proof (cases isBrasilAPI)
    case True
    with h show ?thesis by (simp add: serve_def fetchAddress_brasil [OF ok])
  next
    case False
    with h show ?thesis by (simp add: serve_def fetchAddress_viacep [OF ok])
  qed
next
  show "fetchAddress (serve 404 (Inr (JObject []))) (viaCEP ''01153000'') False =
        [ResultSend \<lparr>Cep = [], Logradouro = [], Bairro = [], Localidade = [], Uf = []\<rparr>]"
    by (simp add: serve_def fetchAddress_viacep [OF url_ok_default_v] json_Decode_def
        zero_fields_def)
next
  show "fetchAddress
        (serve 500 (Inr (JObject [(''message'', JString ''erro''), (''errors'', JArray [])])))
        (brasilAPI ''01153000'') True =
        [ResultSend \<lparr>Cep = [], Logradouro = [], Bairro = [], Localidade = [], Uf = []\<rparr>]"
    by (simp add: serve_def fetchAddress_brasil [OF url_ok_default_b] json_Decode_def
        zero_fields_def BrasilAPIResponse_tags_def find_field_def upperASCII_def)
qed

theorem C5_status_not_inspected_witness:
  "fetchAddress (serve 503 (Inr (JObject [(''cep'', JString ''01153-000'')])))
     (viaCEP ''01153000'') False =
     [ResultSend \<lparr>Cep = ''01153-000'', Logradouro = [], Bairro = [], Localidade = [],
        Uf = []\<rparr>]"
proof -
  have dec: "json_Decode (Inr (JObject [(''cep'', JString ''01153-000'')]))
      (if False then BrasilAPIResponse_tags else ViaCEPResponse_tags) =
      Inr (zero_fields(''cep'' := ''01153-000''))"
    by (simp add: json_Decode_def ViaCEPResponse_tags_def find_field_def)
  from C5_status_not_inspected [where url = "viaCEP ''01153000''" and isBrasilAPI = False
      and body = "Inr (JObject [(''cep'', JString ''01153-000'')])"
      and fs = "zero_fields(''cep'' := ''01153-000'')" and status = 503]
    url_ok_default_v dec
  show ?thesis by (simp add: zero_fields_def)
qed

text \<open>
  C6. When the network call succeeds, \<open>fetchAddress\<close> sends an error on the error channel
  exactly when decoding the body under the selected schema fails, and then it sends no
  Address on the result channel.
\<close>

theorem C6_error_iff_decode_fails:
  assumes ok: "url_Parse_ok url"
    and net: "client_Do \<lparr>Method = ''GET'', URL = url\<rparr> = Inr resp"
  shows "((\<exists>err. ErrSend err \<in> set (fetchAddress client_Do url isBrasilAPI)) \<longleftrightarrow>
           isl (json_Decode (Body resp)
                  (if isBrasilAPI then BrasilAPIResponse_tags else ViaCEPResponse_tags)))
       \<and> (isl (json_Decode (Body resp)
                  (if isBrasilAPI then BrasilAPIResponse_tags else ViaCEPResponse_tags))
            \<longrightarrow> (\<forall>addr. ResultSend addr \<notin> set (fetchAddress client_Do url isBrasilAPI)))"
proof (cases isBrasilAPI)
  case True
  then show ?thesis
    by (cases "json_Decode (Body resp) BrasilAPIResponse_tags")
       (simp_all add: fetchAddress_brasil [where client_Do = client_Do, OF ok net])
next
  case False
  then show ?thesis
    by (cases "json_Decode (Body resp) ViaCEPResponse_tags")
       (simp_all add: fetchAddress_viacep [where client_Do = client_Do, OF ok net])
qed

text \<open>A BrasilAPI body whose \<open>cep\<close> is a number does not decode: an error and no Address.\<close>

theorem C6_error_iff_decode_fails_witness:
  "(\<exists>err. ErrSend err \<in> set (fetchAddress
       (serve 200 (Inr (JObject [(''cep'', JNumber ''1153000'')]))) (brasilAPI ''01153000'') True))
   \<and> (\<forall>addr. ResultSend addr \<notin> set (fetchAddress
       (serve 200 (Inr (JObject [(''cep'', JNumber ''1153000'')]))) (brasilAPI ''01153000'') True))"
proof -
  let ?resp = "\<lparr>StatusCode = 200, Body = Inr (JObject [(''cep'', JNumber ''1153000'')])\<rparr>"
  have net: "serve 200 (Inr (JObject [(''cep'', JNumber ''1153000'')]))
      \<lparr>Method = ''GET'', URL = brasilAPI ''01153000''\<rparr> = Inr ?resp"
    by (simp add: serve_def)
  have dec: "isl (json_Decode (Body ?resp)
      (if True then BrasilAPIResponse_tags else ViaCEPResponse_tags))"
    by (simp add: json_Decode_def BrasilAPIResponse_tags_def find_field_def)
  from C6_error_iff_decode_fails
    [where client_Do = "serve 200 (Inr (JObject [(''cep'', JNumber ''1153000'')]))"
       and isBrasilAPI = True, OF url_ok_default_b net] dec
  show ?thesis by blast
qed

text \<open>
  C7. The process ends with a message and never panics, for every key and every
  behaviour of the providers. The code breaks this for a key that makes the URL
  unparseable: with the key \<^verbatim>\<open>%\<close> neither URL parses, both calls of \<open>fetchAddress\<close>
  panic whatever the network does, and as soon as one of the goroutines gets there before
  the deadline the only way the process ends is the panic.
\<close>

theorem C7_malformed_key_panics:
  "fetchAddress client_Do (brasilAPI ''%'') True = [Panic]
   \<and> fetchAddress client_Do (viaCEP ''%'') False = [Panic]
   \<and> (dB < timeout \<or> dV < timeout
      \<longrightarrow> (\<forall>e. main [prog, ''%''] client_Do dB dV e \<longleftrightarrow> e = GoPanic))"
proof (intro conjI impI allI)
  show b: "fetchAddress client_Do (brasilAPI ''%'') True = [Panic]"
    by (rule fetchAddress_bad_url [OF url_bad_b])
  show v: "fetchAddress client_Do (viaCEP ''%'') False = [Panic]"
    by (rule fetchAddress_bad_url [OF url_bad_v])
  fix e
  assume h: "dB < timeout \<or> dV < timeout"
  have k: "main_cep [prog, ''%''] = ''%''" by (simp add: main_cep_def)
  consider "dB < dV \<and> dB < timeout" | "dV < dB \<and> dV < timeout" | "dB = dV \<and> dB < timeout"
    using h by linarith
  then show "main [prog, ''%''] client_Do dB dV e \<longleftrightarrow> e = GoPanic"
  proof cases
    case 1
    then show ?thesis by (simp add: main_first_brasilAPI k b)
  next
    case 2
    then show ?thesis by (simp add: main_first_viaCEP k v)
  next
    case 3
    then have t: "first_instant dB dV = dB" by (simp add: first_instant_def)
    from 3 show ?thesis
      unfolding main_iff t channels_at_def crashed_at_def go_select.simps k b v
      by auto
  qed
qed

theorem C7_malformed_key_panics_witness:
  "\<forall>e. main [''cep'', ''%''] refused 0 0 e \<longleftrightarrow> e = GoPanic"
proof -
  have "(0::nat) < timeout" by (simp add: timeout_def Second_def)
  with C7_malformed_key_panics [where dB = 0 and dV = 0 and prog = "''cep''"
      and client_Do = refused]
  show ?thesis by blast
qed

text \<open>
  C8. Both request URLs are the fixed templates with the key put in as it is, for every
  key: nothing is escaped and nothing is checked. These two URLs are the requests of the
  race: two networks that answer them alike end the process alike.
\<close>

theorem C8_urls_embed_key:
  "brasilAPI key = ''https://brasilapi.com.br/api/cep/v1/'' @ key
   \<and> viaCEP key = ''http://viacep.com.br/ws/'' @ key @ ''/json/''
   \<and> (client_Do \<lparr>Method = ''GET'',
                  URL = ''https://brasilapi.com.br/api/cep/v1/'' @ main_cep os_Args\<rparr>
        = client_Do' \<lparr>Method = ''GET'',
                      URL = ''https://brasilapi.com.br/api/cep/v1/'' @ main_cep os_Args\<rparr>
      \<and> client_Do \<lparr>Method = ''GET'',
                    URL = ''http://viacep.com.br/ws/'' @ main_cep os_Args @ ''/json/''\<rparr>
        = client_Do' \<lparr>Method = ''GET'',
                      URL = ''http://viacep.com.br/ws/'' @ main_cep os_Args @ ''/json/''\<rparr>
      \<longrightarrow> main os_Args client_Do dB dV e = main os_Args client_Do' dB dV e)"
proof (intro conjI impI)
  show "brasilAPI key = ''https://brasilapi.com.br/api/cep/v1/'' @ key"
    by (simp add: brasilAPI_def)
  show "viaCEP key = ''http://viacep.com.br/ws/'' @ key @ ''/json/''"
    by (simp add: viaCEP_def)
  assume h: "client_Do \<lparr>Method = ''GET'',
                  URL = ''https://brasilapi.com.br/api/cep/v1/'' @ main_cep os_Args\<rparr>
        = client_Do' \<lparr>Method = ''GET'',
                      URL = ''https://brasilapi.com.br/api/cep/v1/'' @ main_cep os_Args\<rparr>
      \<and> client_Do \<lparr>Method = ''GET'',
                    URL = ''http://viacep.com.br/ws/'' @ main_cep os_Args @ ''/json/''\<rparr>
        = client_Do' \<lparr>Method = ''GET'',
                      URL = ''http://viacep.com.br/ws/'' @ main_cep os_Args @ ''/json/''\<rparr>"
  then have "fetchAddress client_Do (brasilAPI (main_cep os_Args)) True
           = fetchAddress client_Do' (brasilAPI (main_cep os_Args)) True"
    by (intro fetchAddress_cong) (simp add: brasilAPI_def)
  moreover from h have "fetchAddress client_Do (viaCEP (main_cep os_Args)) False
           = fetchAddress client_Do' (viaCEP (main_cep os_Args)) False"
    by (intro fetchAddress_cong) (simp add: viaCEP_def)
  ultimately show "main os_Args client_Do dB dV e = main os_Args client_Do' dB dV e"
    by (simp add: main_iff)
qed

text \<open>
  A key with a space, a slash and a question mark goes into both URLs unchanged; for
  that key a network that refuses everything and one that serves a third URL are the same.
\<close>

theorem C8_urls_embed_key_witness:
  "brasilAPI ''a b/c?d'' = ''https://brasilapi.com.br/api/cep/v1/a b/c?d''
   \<and> viaCEP ''a b/c?d'' = ''http://viacep.com.br/ws/a b/c?d/json/''
   \<and> main [''cep'', ''a b/c?d'']
        (\<lambda>req. if URL req = ''http://localhost/'' then Inr \<lparr>StatusCode = 200, Body = Inr JNull\<rparr>
                else Inl (TransportError ''connection refused''))
        5 7 (Exit (report (BrasilAPI_Erro (TransportError ''connection refused''))))"
proof -
  let ?e = "Exit (report (BrasilAPI_Erro (TransportError ''connection refused'')))"
  note c8 = C8_urls_embed_key [where key = "''a b/c?d''" and os_Args = "[''cep'', ''a b/c?d'']"
      and client_Do = "\<lambda>req. if URL req = ''http://localhost/''
                then Inr \<lparr>StatusCode = 200, Body = Inr JNull\<rparr>
                else Inl (TransportError ''connection refused'')"
      and client_Do' = refused and dB = 5 and dV = 7 and e = ?e]
  have k: "main_cep [''cep'', ''a b/c?d''] = ''a b/c?d''" by (simp add: main_cep_def)
  have ok: "url_Parse_ok (brasilAPI ''a b/c?d'')"
    by (simp add: url_Parse_ok_def brasilAPI_def isCTL_def ishex_def)
  have net: "refused \<lparr>Method = ''GET'', URL = brasilAPI ''a b/c?d''\<rparr> =
      Inl (TransportError ''connection refused'')"
    by (simp add: refused_def)
  have t: "(5::nat) < 7" "5 < timeout" by (simp_all add: timeout_def Second_def)
  have "main [''cep'', ''a b/c?d''] refused 5 7 ?e"
    by (simp add: main_first_brasilAPI [OF t] k
        fetchAddress_transport [where client_Do = refused, OF ok net])
  with c8 show ?thesis by (simp add: k refused_def)
qed

text \<open>
  C9. One call of \<open>fetchAddress\<close> sends at most one value: its run holds at most one send,
  never a result together with an error. When the URL parses it is exactly one send; when
  it does not, the goroutine panics before it sends anything.
\<close>

theorem C9_at_most_one_send:
  "length (sends (fetchAddress client_Do url isBrasilAPI)) \<le> 1
   \<and> \<not> ((\<exists>addr. ResultSend addr \<in> set (fetchAddress client_Do url isBrasilAPI))
        \<and> (\<exists>err. ErrSend err \<in> set (fetchAddress client_Do url isBrasilAPI)))
   \<and> (url_Parse_ok url \<longrightarrow> length (sends (fetchAddress client_Do url isBrasilAPI)) = 1)
   \<and> (\<not> url_Parse_ok url \<longrightarrow> sends (fetchAddress client_Do url isBrasilAPI) = [])"
  using fetchAddress_shape [of url client_Do isBrasilAPI]
  by (auto simp: sends_def)

theorem C9_at_most_one_send_witness:
  "length (sends (fetchAddress refused (brasilAPI ''01153000'') True)) = 1
   \<and> length (sends (fetchAddress refused (brasilAPI [CHR ''#'', CHR 0x01]) True)) = 1
   \<and> sends (fetchAddress refused (viaCEP ''%'') False) = []"
proof -
  have ok: "url_Parse_ok (brasilAPI [CHR ''#'', CHR 0x01])"
    by (simp add: url_Parse_ok_def brasilAPI_def isCTL_def ishex_def)
  from C9_at_most_one_send [where url = "brasilAPI ''01153000''" and client_Do = refused
      and isBrasilAPI = True]
    C9_at_most_one_send [where url = "brasilAPI [CHR ''#'', CHR 0x01]" and client_Do = refused
      and isBrasilAPI = True]
    C9_at_most_one_send [where url = "viaCEP ''%''" and client_Do = refused
      and isBrasilAPI = False]
    url_ok_default_b ok url_bad_v
  show ?thesis by blast
qed

text \<open>
  C10. Without a command-line argument the key is \<^verbatim>\<open>01153000\<close>; with at least one, it
  is the first argument. That one key is the key of both URLs of the race: a run with
  arguments is the run of the first argument alone, and a run without is the run of the
  default key given as argument.
\<close>

theorem C10_key_selection:
  "main_cep [] = ''01153000''
   \<and> main_cep [prog] = ''01153000''
   \<and> main_cep (prog # arg # rest) = arg
   \<and> main (prog # arg # rest) client_Do dB dV e = main [prog, arg] client_Do dB dV e
   \<and> main [prog] client_Do dB dV e = main [prog, ''01153000''] client_Do dB dV e
   \<and> (main os_Args client_Do dB dV e \<longleftrightarrow>
        (\<exists>out. go_select
           (channels_at (first_instant dB dV)
              dB (fetchAddress client_Do (brasilAPI (main_cep os_Args)) True)
              dV (fetchAddress client_Do (viaCEP (main_cep os_Args)) False)) out
           \<and> e = Exit (report out))
        \<or> (crashed_at (first_instant dB dV)
              dB (fetchAddress client_Do (brasilAPI (main_cep os_Args)) True)
              dV (fetchAddress client_Do (viaCEP (main_cep os_Args)) False)
            \<and> e = GoPanic))"
proof (intro conjI)
  show "main (prog # arg # rest) client_Do dB dV e = main [prog, arg] client_Do dB dV e"
    by (simp add: main_iff main_cep_def)
  show "main [prog] client_Do dB dV e = main [prog, ''01153000''] client_Do dB dV e"
    by (simp add: main_iff main_cep_def)
  show "main os_Args client_Do dB dV e \<longleftrightarrow>
        (\<exists>out. go_select
           (channels_at (first_instant dB dV)
              dB (fetchAddress client_Do (brasilAPI (main_cep os_Args)) True)
              dV (fetchAddress client_Do (viaCEP (main_cep os_Args)) False)) out
           \<and> e = Exit (report out))
        \<or> (crashed_at (first_instant dB dV)
              dB (fetchAddress client_Do (brasilAPI (main_cep os_Args)) True)
              dV (fetchAddress client_Do (viaCEP (main_cep os_Args)) False)
            \<and> e = GoPanic)"
    by (rule main_iff)
qed (simp_all add: main_cep_def)

theorem C10_key_selection_witness:
  "main_cep [''cep''] = ''01153000''
   \<and> main_cep [''cep'', ''01001000'', ''04538133''] = ''01001000''
   \<and> main [''cep'', ''01001000'', ''04538133''] refused 5 7
        (Exit (report (BrasilAPI_Erro (TransportError ''connection refused''))))"
proof -
  let ?e = "Exit (report (BrasilAPI_Erro (TransportError ''connection refused'')))"
  note c10 = C10_key_selection [where prog = "''cep''" and arg = "''01001000''"
      and rest = "[''04538133'']" and client_Do = refused and dB = 5 and dV = 7 and e = ?e]
  have k: "main_cep [''cep'', ''01001000''] = ''01001000''" by (simp add: main_cep_def)
  have ok: "url_Parse_ok (brasilAPI ''01001000'')"
    by (simp add: url_Parse_ok_def brasilAPI_def isCTL_def ishex_def)
  have net: "refused \<lparr>Method = ''GET'', URL = brasilAPI ''01001000''\<rparr> =
      Inl (TransportError ''connection refused'')"
    by (simp add: refused_def)
  have t: "(5::nat) < 7" "5 < timeout" by (simp_all add: timeout_def Second_def)
  have "main [''cep'', ''01001000''] refused 5 7 ?e"
    by (simp add: main_first_brasilAPI [OF t] k
        fetchAddress_transport [where client_Do = refused, OF ok net])
  with c10 show ?thesis by blast
qed

end
